theory Spec2Isabelle
  imports Complex_Main
begin

section \<open>Data model (frontend/src/types/index.ts)\<close>

text \<open>
  TypeScript \<open>number\<close> values are modelled as \<^typ>\<open>real\<close>. Every score and threshold
  reaches the components through \<open>JSON.parse\<close> of a channel frame, so it is a finite
  number (JSON has no encoding of NaN), and on such numbers the comparisons \<open>>=\<close> and
  \<open><\<close> of the source agree with the order of the reals. Where the source computes with
  numbers (\<open>criterion.threshold * 0.7\<close>, \<open>iteration - 1\<close>), the result is the exact
  result rounded to the nearest double, as \<open>toDouble\<close> below gives it.
\<close>

subsection \<open>Double-precision rounding\<close>




datatype MessageRole = USER | ASSISTANT | SYSTEM

record CriterionScore =
  name :: string
  score :: real
  weight :: real
  threshold :: real
  passed :: bool
  feedback :: "string option"

text \<open>The field \<open>feedback\<close> of a JudgeEvaluation is \<open>eval_feedback\<close> here (the record
  above already has a field of that name).\<close>

record JudgeEvaluation =
  overall_score :: real
  criteria_scores :: "CriterionScore list"
  eval_feedback :: string
  should_regenerate :: bool
  suggestions :: "string list"
  traffic_light :: string

text \<open>
  \<open>metadata\<close> is a \<open>Record<string, any>\<close> in the source; the components read and write
  four keys of it, each absent (\<open>undefined\<close>) or present. Every message the components
  build carries a metadata object.
\<close>

record Metadata =
  iteration :: "real option"
  streaming_evaluation :: "JudgeEvaluation option"
  evaluation :: "JudgeEvaluation option"
  md_inputEvaluation :: "JudgeEvaluation option"

text \<open>The field \<open>id\<close> of a Message is \<open>msg_id\<close> here.\<close>

record Message =
  msg_id :: string
  role :: MessageRole
  content :: string
  timestamp :: string
  metadata :: Metadata

datatype ConversationMode = SIMPLE | FEEDBACK | INPUT_CRITIQUE

section \<open>Traffic light (TrafficLight component, Message.getTrafficLightColor)\<close>

text \<open>
  The three glyphs the source returns: the green circle (U+1F7E2), the orange circle
  (U+1F7E0) and the red circle (U+1F534).
\<close>

datatype light = Green | Orange | Red

text \<open>\<open>getIndicator\<close> of the TrafficLight component, with the props it closes over
  (\<open>score\<close>, \<open>greenThreshold\<close>, \<open>orangeThreshold\<close>) as arguments.\<close>

definition getIndicator :: "real \<Rightarrow> real \<Rightarrow> real \<Rightarrow> light" where
  "getIndicator score' greenThreshold orangeThreshold =
     (if score' \<ge> greenThreshold then Green
      else if score' \<ge> orangeThreshold then Orange
      else Red)"

text \<open>The component itself: the optional props default to 70 and 40.\<close>

definition TrafficLight :: "real \<Rightarrow> real option \<Rightarrow> real option \<Rightarrow> light" where
  "TrafficLight score' greenThreshold orangeThreshold =
     getIndicator score'
       (case greenThreshold of None \<Rightarrow> 70 | Some g \<Rightarrow> g)
       (case orangeThreshold of None \<Rightarrow> 40 | Some t \<Rightarrow> t)"

text \<open>\<open>getTrafficLightColor\<close> of the Message component (the inline lights).\<close>

definition getTrafficLightColor :: "real \<Rightarrow> light" where
  "getTrafficLightColor score' =
     (if score' \<ge> 70 then Green
      else if score' \<ge> 40 then Orange
      else Red)"

text \<open>
  The criteria whose lights the Message component shows for a message: for a user message
  the input evaluation of its metadata, otherwise the streaming evaluation of its metadata
  or, when there is none, the final one (\<open>a?.criteria_scores || b?.criteria_scores || null\<close>;
  an array is truthy even when empty).
\<close>

definition trafficLights :: "Message \<Rightarrow> CriterionScore list option" where
  "trafficLights message' =
     (if role message' = USER
      then map_option criteria_scores (md_inputEvaluation (metadata message'))
      else case streaming_evaluation (metadata message') of
             Some e \<Rightarrow> Some (criteria_scores e)
           | None \<Rightarrow> map_option criteria_scores (evaluation (metadata message')))"

text \<open>The lights rendered under the message, each with the criterion name of its
  tooltip: none unless \<open>trafficLights && trafficLights.length > 0\<close>.\<close>

definition Message_lights :: "Message \<Rightarrow> (string \<times> light) list" where
  "Message_lights message' =
     (case trafficLights message' of
        None \<Rightarrow> []
      | Some cs \<Rightarrow>
          if length cs > 0
          then map (\<lambda>criterion. (name criterion, getTrafficLightColor (score criterion))) cs
          else [])"

section \<open>The channel client (WebSocketClient)\<close>

datatype readyState = CONNECTING | OPEN | CLOSING | CLOSED

text \<open>A socket: its \<open>readyState\<close> and the texts handed to its \<open>send\<close>, oldest first.\<close>

record WebSocket =
  readyState :: readyState
  transmitted :: "string list"

text \<open>The frame object \<open>send\<close> builds: \<open>{event, data, timestamp}\<close>.\<close>

record 'd frame =
  event :: string
  data :: 'd
  frame_timestamp :: string

text \<open>The private fields of the class; \<open>'h\<close> is the type of handler references.\<close>

record 'h WebSocketClient =
  ws :: "WebSocket option"
  url :: string
  handlers :: "string \<rightharpoonup> 'h list"
  reconnectAttempts :: nat
  maxReconnectAttempts :: nat
  reconnectDelay :: nat

datatype exn = TypeError

text \<open>What a call leaves behind besides the client: the lines written with
  \<open>console.error\<close>.\<close>

type_synonym console = "string list"

definition isConnected :: "'h WebSocketClient \<Rightarrow> bool" where
  "isConnected c = (case ws c of None \<Rightarrow> False | Some sock \<Rightarrow> readyState sock = OPEN)"

text \<open>
  \<open>send(eventType, data)\<close>. The clock reading \<open>new Date().toISOString()\<close> is the argument
  \<open>now\<close>; \<open>stringify\<close> is \<open>JSON.stringify\<close> on frames, \<open>None\<close> where it throws (a cyclic
  value). The result is the exception raised, or the client after the call with the
  console lines written.
\<close>

definition send ::
  "('d frame \<Rightarrow> string option) \<Rightarrow> string \<Rightarrow> string \<Rightarrow> 'd \<Rightarrow> 'h WebSocketClient
     \<Rightarrow> exn + ('h WebSocketClient \<times> console)" where
  "send stringify now eventType d c =
     (case ws c of
        Some sock \<Rightarrow>
          if readyState sock = OPEN then
            (let message = \<lparr>event = eventType, data = d, frame_timestamp = now\<rparr>
             in case stringify message of
                  None \<Rightarrow> Inl TypeError
                | Some txt \<Rightarrow>
                    Inr (c\<lparr>ws := Some (sock\<lparr>transmitted := transmitted sock @ [txt]\<rparr>)\<rparr>, []))
          else Inr (c, [''WebSocket is not connected''])
      | None \<Rightarrow> Inr (c, [''WebSocket is not connected'']))"

section \<open>The chat component (ChatUI)\<close>

text \<open>
  The state of the component: its \<open>useState\<close> cells, the two cells of App that the props
  \<open>onEvaluationUpdate\<close> and \<open>onIterationUpdate\<close> set (\<open>app_currentEvaluation\<close>,
  \<open>app_currentIteration\<close>), the texts shown with \<open>alert\<close>, and the history writes that
  wait for the next render (\<open>deferredWrites\<close>, oldest first; see
  \<open>handleJudgeCriterionResult\<close>).

  The cells hold what the pending updates of each cell give when run in order. Every
  updater but one reads only the previous value of its own cell and the event, so running
  it at the call or at the render gives the same value. The exception is the history write
  nested in the updater of \<open>streamingCriteria\<close>: it is queued on \<open>messages\<close> only when that
  updater runs.
\<close>

record ChatUI =
  messages :: "Message list"
  inputValue :: string
  isLoading :: bool
  isJudging :: bool
  currentEvaluation :: "JudgeEvaluation option"
  streamingCriteria :: "JudgeEvaluation option"
  streamingMessage :: string
  lastUserMessage :: string
  conversationId :: "string option"
  mode :: ConversationMode
  inputEvaluation :: "JudgeEvaluation option"
  isStopped :: bool
  app_currentEvaluation :: "JudgeEvaluation option"
  app_currentIteration :: "real option"
  alerts :: "string list"
  deferredWrites :: "JudgeEvaluation list"

definition initialChatUI :: ChatUI where
  "initialChatUI =
     \<lparr>messages = [], inputValue = [], isLoading = False, isJudging = False,
      currentEvaluation = None, streamingCriteria = None, streamingMessage = [],
      lastUserMessage = [], conversationId = None, mode = INPUT_CRITIQUE,
      inputEvaluation = None, isStopped = False,
      app_currentEvaluation = None, app_currentIteration = None, alerts = [],
      deferredWrites = []\<rparr>"

text \<open>The white circle (U+26AA) of the placeholder evaluation, in UTF-8.\<close>

definition whiteCircle :: string where
  "whiteCircle = [CHR 0xE2, CHR 0x9A, CHR 0xAA]"

text \<open>The object literal the handlers write out for an evaluation in progress:
  \<open>{criteria_scores: cs, overall_score: 0, feedback: '', should_regenerate: false,
  suggestions: [], traffic_light: white circle}\<close>.\<close>

definition placeholderEvaluation :: "CriterionScore list \<Rightarrow> JudgeEvaluation" where
  "placeholderEvaluation cs =
     \<lparr>overall_score = 0, criteria_scores = cs, eval_feedback = [],
      should_regenerate = False, suggestions = [], traffic_light = whiteCircle\<rparr>"

subsection \<open>Handlers registered on the channel\<close>

text \<open>
  The handlers are closures built inside the mount effect. Where the source tests
  \<open>isStopped\<close>, they read the variable of the render that ran the effect, not the
  current cell; that value is the first argument \<open>stopped\<close> of the handler here. The
  effect depends on the two props only, which App fills with state setters, so it runs
  with the first render, where \<open>isStopped\<close> is \<open>useState(false)\<close>.
\<close>

definition handleGenerating :: "ChatUI \<Rightarrow> ChatUI" where
  "handleGenerating s =
     s\<lparr>isLoading := True, currentEvaluation := None, app_currentEvaluation := None\<rparr>"

definition handleInputCritique :: "ChatUI \<Rightarrow> ChatUI" where
  "handleInputCritique s = s"

definition handleChatbotChunk :: "bool \<Rightarrow> string \<Rightarrow> ChatUI \<Rightarrow> ChatUI" where
  "handleChatbotChunk stopped chunk s =
     (if stopped then s
      else s\<lparr>streamingMessage := streamingMessage s @ chunk\<rparr>)"

text \<open>The payload of \<open>chatbot_response\<close>.\<close>

record chatbot_response =
  response :: string
  response_iteration :: "real option"
  response_conversation_id :: "string option"

text \<open>JavaScript truthiness of an optional number and of an optional string.\<close>

definition truthy_number :: "real option \<Rightarrow> bool" where
  "truthy_number v = (case v of None \<Rightarrow> False | Some n \<Rightarrow> n \<noteq> 0)"

definition truthy_string :: "string option \<Rightarrow> bool" where
  "truthy_string v = (case v of None \<Rightarrow> False | Some x \<Rightarrow> x \<noteq> [])"

text \<open>
  \<open>handleChatbotResponse\<close>. \<open>nowMs\<close> is the decimal text of \<open>Date.now()\<close> and \<open>nowIso\<close>
  the text of \<open>new Date().toISOString()\<close>. The source has no test of \<open>isStopped\<close> here.
\<close>

definition handleChatbotResponse :: "string \<Rightarrow> string \<Rightarrow> chatbot_response \<Rightarrow> ChatUI \<Rightarrow> ChatUI" where
  "handleChatbotResponse nowMs nowIso d s =
     (let newMessage =
            \<lparr>msg_id = ''msg_'' @ nowMs, role = ASSISTANT, content = response d,
             timestamp = nowIso,
             metadata = \<lparr>iteration = response_iteration d, streaming_evaluation = None,
                         evaluation = None, md_inputEvaluation = None\<rparr>\<rparr>
      in s\<lparr>messages := messages s @ [newMessage],
            streamingMessage := [],
            isLoading := False,
            conversationId :=
              (if truthy_string (response_conversation_id d) then response_conversation_id d
               else conversationId s),
            app_currentIteration :=
              (if truthy_number (response_iteration d) then response_iteration d
               else app_currentIteration s)\<rparr>)"

definition handleJudgeEvaluating :: "bool \<Rightarrow> ChatUI \<Rightarrow> ChatUI" where
  "handleJudgeEvaluating stopped s =
     (if stopped then s
      else s\<lparr>isJudging := True, streamingCriteria := Some (placeholderEvaluation [])\<rparr>)"

text \<open>
  The updater that \<open>handleJudgeCriterionResult\<close> passes to \<open>setMessages\<close> from inside the
  updater of \<open>streamingCriteria\<close>: it stores the accumulated evaluation \<open>updated\<close> as the
  streaming evaluation of the last message when that is an assistant message.
\<close>

definition streamingWrite :: "JudgeEvaluation \<Rightarrow> Message list \<Rightarrow> Message list" where
  "streamingWrite updated prevMessages =
     (let lastAssistantIndex = int (length prevMessages) - 1
      in if lastAssistantIndex \<ge> 0
            \<and> role (prevMessages ! nat lastAssistantIndex) = ASSISTANT
         then prevMessages
                [nat lastAssistantIndex :=
                   (prevMessages ! nat lastAssistantIndex)
                     \<lparr>metadata :=
                        (metadata (prevMessages ! nat lastAssistantIndex))
                          \<lparr>streaming_evaluation := Some updated\<rparr>\<rparr>]
         else prevMessages)"

text \<open>
  \<open>handleJudgeCriterionResult\<close>. The call \<open>setMessages\<close> stands inside the function passed
  to \<open>setStreamingCriteria\<close>. The library runs that function at the call only when the
  component has no update pending (\<open>eager\<close>); then the history write is queued at once.
  Otherwise the function runs at the next render, after the history writes that later
  handlers of the same batch have queued: the write waits in \<open>deferredWrites\<close>. A write
  is never run at the call while an older one waits.
\<close>

definition handleJudgeCriterionResult ::
  "bool \<Rightarrow> bool \<Rightarrow> CriterionScore \<Rightarrow> ChatUI \<Rightarrow> ChatUI" where
  "handleJudgeCriterionResult stopped eager criterion s =
     (if stopped then s
      else
        let updated =
              (case streamingCriteria s of
                 Some prev \<Rightarrow> prev\<lparr>criteria_scores := criteria_scores prev @ [criterion]\<rparr>
               | None \<Rightarrow> placeholderEvaluation [criterion])
        in if eager \<and> deferredWrites s = []
           then s\<lparr>messages := streamingWrite updated (messages s),
                  streamingCriteria := Some updated\<rparr>
           else s\<lparr>streamingCriteria := Some updated,
                  deferredWrites := deferredWrites s @ [updated]\<rparr>)"

text \<open>The render that ends a batch of handled events: the waiting history writes run in
  the order in which they were queued.\<close>

definition render :: "ChatUI \<Rightarrow> ChatUI" where
  "render s =
     s\<lparr>messages := fold streamingWrite (deferredWrites s) (messages s),
       deferredWrites := []\<rparr>"

definition handleJudgeResult :: "bool \<Rightarrow> JudgeEvaluation \<Rightarrow> ChatUI \<Rightarrow> ChatUI" where
  "handleJudgeResult stopped ev s =
     (if stopped then s
      else
        let prevMessages = messages s;
            lastAssistantIndex = int (length prevMessages) - 1
        in s\<lparr>isJudging := False,
             currentEvaluation := Some ev,
             streamingCriteria := None,
             app_currentEvaluation := Some ev,
             messages :=
               (if lastAssistantIndex \<ge> 0
                   \<and> role (prevMessages ! nat lastAssistantIndex) = ASSISTANT
                then prevMessages
                       [nat lastAssistantIndex :=
                          (prevMessages ! nat lastAssistantIndex)
                            \<lparr>metadata :=
                               (metadata (prevMessages ! nat lastAssistantIndex))
                                 \<lparr>evaluation := Some ev,
                                  streaming_evaluation := None\<rparr>\<rparr>]
                else prevMessages)\<rparr>)"

definition handleFinalResponse :: "ChatUI \<Rightarrow> ChatUI" where
  "handleFinalResponse s = s\<lparr>isLoading := False, isJudging := False\<rparr>"

definition handleError :: "string \<Rightarrow> ChatUI \<Rightarrow> ChatUI" where
  "handleError err s = s\<lparr>isLoading := False, alerts := alerts s @ [''Error: '' @ err]\<rparr>"

text \<open>\<open>handleUserInputEvaluation\<close>; \<open>messageId\<close> is \<open>data.message_id\<close>, \<open>None\<close> when the
  payload has none.\<close>

definition handleUserInputEvaluation ::
  "CriterionScore \<Rightarrow> string option \<Rightarrow> ChatUI \<Rightarrow> ChatUI" where
  "handleUserInputEvaluation criterion messageId s =
     s\<lparr>messages :=
         map (\<lambda>msg.
                if Some (msg_id msg) = messageId then
                  (let currentEval =
                         (case md_inputEvaluation (metadata msg) of
                            Some e \<Rightarrow> e
                          | None \<Rightarrow> placeholderEvaluation []);
                       updated =
                         currentEval\<lparr>criteria_scores := criteria_scores currentEval @ [criterion]\<rparr>
                   in msg\<lparr>metadata := (metadata msg)\<lparr>md_inputEvaluation := Some updated\<rparr>\<rparr>)
                else msg)
             (messages s),
       inputEvaluation :=
         Some (case inputEvaluation s of
                 Some prev \<Rightarrow> prev\<lparr>criteria_scores := criteria_scores prev @ [criterion]\<rparr>
               | None \<Rightarrow> placeholderEvaluation [criterion])\<rparr>"

text \<open>
  The effect with dependency \<open>[inputEvaluation]\<close> ("Update user message with input
  evaluation once it's complete"): it runs after every render in which the cell
  \<open>inputEvaluation\<close> holds a new object, that is after \<open>handleUserInputEvaluation\<close> and
  after \<open>handleSend\<close>.
\<close>

definition inputEvaluationEffect :: "ChatUI \<Rightarrow> ChatUI" where
  "inputEvaluationEffect s =
     (case inputEvaluation s of
        None \<Rightarrow> s
      | Some ie \<Rightarrow>
          if length (criteria_scores ie) > 0 then
            (let prev = messages s in
             if prev \<noteq> [] \<and> role (last prev) = USER then
               s\<lparr>messages :=
                    butlast prev @
                    [(last prev)\<lparr>metadata := (metadata (last prev))\<lparr>md_inputEvaluation := Some ie\<rparr>\<rparr>]\<rparr>
             else s)
          else s)"

text \<open>A run of \<open>judge_criterion_result\<close> events handled one after the other with no
  render between them, each with its own \<open>eager\<close>.\<close>

definition handleCriterionResults ::
  "bool \<Rightarrow> (bool \<times> CriterionScore) list \<Rightarrow> ChatUI \<Rightarrow> ChatUI" where
  "handleCriterionResults stopped ecs s =
     fold (\<lambda>(eager, criterion). handleJudgeCriterionResult stopped eager criterion) ecs s"

subsection \<open>Handlers of the controls\<close>

text \<open>The payload of the \<open>user_message\<close> command. \<open>conversation_id\<close> is \<open>null\<close> before the
  first response; \<open>message_id\<close> and \<open>skip_user_evaluation\<close> may be absent.\<close>

record user_message =
  message :: string
  conversation_id :: "string option"
  payload_mode :: ConversationMode
  message_id :: "string option"
  skip_user_evaluation :: "bool option"

text \<open>A call \<open>wsClient.send(eventType, data)\<close> made by a handler.\<close>

type_synonym send_call = "string \<times> user_message"

text \<open>\<open>String.prototype.trim\<close> on one-byte characters: TAB, LF, VT, FF, CR, SPACE and
  NBSP are white space.\<close>

definition whiteSpace :: "char \<Rightarrow> bool" where
  "whiteSpace c = (c \<in> {CHR 0x09, CHR 0x0A, CHR 0x0B, CHR 0x0C, CHR 0x0D, CHR 0x20, CHR 0xA0})"

definition trim :: "string \<Rightarrow> string" where
  "trim x = rev (dropWhile whiteSpace (rev (dropWhile whiteSpace x)))"

text \<open>The \<open>onChange\<close> of the input box: \<open>setInputValue(e.target.value)\<close>.\<close>

definition handleInputChange :: "string \<Rightarrow> ChatUI \<Rightarrow> ChatUI" where
  "handleInputChange v s = s\<lparr>inputValue := v\<rparr>"

text \<open>\<open>handleSend\<close>, with the two clock readings as in \<open>handleChatbotResponse\<close>. The
  result is the new state and the calls made to \<open>wsClient.send\<close>.\<close>

definition handleSend :: "string \<Rightarrow> string \<Rightarrow> ChatUI \<Rightarrow> ChatUI \<times> send_call list" where
  "handleSend nowMs nowIso s =
     (if trim (inputValue s) = [] \<or> isLoading s \<or> isJudging s then (s, [])
      else
        let userMessageContent = inputValue s;
            tempUserId = ''msg_'' @ nowMs;
            userMessage =
              \<lparr>msg_id = tempUserId, role = USER, content = userMessageContent,
               timestamp = nowIso,
               metadata = \<lparr>iteration = None, streaming_evaluation = None,
                           evaluation = None, md_inputEvaluation = None\<rparr>\<rparr>
        in (s\<lparr>inputValue := [],
              isLoading := True,
              isStopped := False,
              inputEvaluation := Some (placeholderEvaluation []),
              messages := messages s @ [userMessage],
              lastUserMessage := userMessageContent\<rparr>,
            [(''user_message'',
              \<lparr>message = userMessageContent, conversation_id = conversationId s,
               payload_mode = mode s, message_id = Some tempUserId,
               skip_user_evaluation = None\<rparr>)]))"

definition handleStop :: "ChatUI \<Rightarrow> ChatUI" where
  "handleStop s =
     s\<lparr>isStopped := True, isLoading := False, isJudging := False, streamingMessage := []\<rparr>"

text \<open>The condition under which the retry button is rendered:
  \<open>!isLoading && !isJudging && lastUserMessage\<close>.\<close>

definition retryRendered :: "ChatUI \<Rightarrow> bool" where
  "retryRendered s = (\<not> isLoading s \<and> \<not> isJudging s \<and> lastUserMessage s \<noteq> [])"

text \<open>The backwards \<open>for\<close> loop of \<open>handleRetry\<close>, run on the reversed history: the id of
  the first user message met whose content is \<open>lastUserMessage\<close>.\<close>

primrec findUserMessageId :: "Message list \<Rightarrow> string \<Rightarrow> string option" where
  "findUserMessageId [] l = None"
| "findUserMessageId (m # ms) l =
     (if role m = USER \<and> content m = l then Some (msg_id m) else findUserMessageId ms l)"

text \<open>
  \<open>handleRetry\<close>. The variable \<open>lastUserMessageId\<close> is assigned inside the updater passed
  to \<open>setMessages\<close>; the payload reads it right after that call. \<open>eager\<close> says whether
  the library has run the updater by then; if not, the variable is still \<open>undefined\<close>.
\<close>

definition handleRetry :: "bool \<Rightarrow> ChatUI \<Rightarrow> ChatUI \<times> send_call list" where
  "handleRetry eager s =
     (if lastUserMessage s = [] \<or> isLoading s \<or> isJudging s then (s, [])
      else
        let prev = messages s;
            lastUserMessageId =
              (if eager then findUserMessageId (rev prev) (lastUserMessage s) else None)
        in (s\<lparr>isStopped := False,
              messages :=
                (if prev \<noteq> [] \<and> role (last prev) = ASSISTANT then butlast prev else prev),
              isLoading := True\<rparr>,
            [(''user_message'',
              \<lparr>message = lastUserMessage s, conversation_id = conversationId s,
               payload_mode = mode s, message_id = lastUserMessageId,
               skip_user_evaluation = Some True\<rparr>)]))"

subsection \<open>Delivery of a channel event\<close>

text \<open>The events of \<open>WebSocketEventType\<close> with their payloads.\<close>

datatype WebSocketEvent =
    USER_MESSAGE
  | USER_INPUT_EVALUATION CriterionScore "string option"
  | JUDGE_INPUT_CRITIQUE
  | CHATBOT_GENERATING
  | CHATBOT_CHUNK string
  | CHATBOT_RESPONSE chatbot_response
  | JUDGE_EVALUATING
  | JUDGE_CRITERION_RESULT CriterionScore
  | JUDGE_RESULT JudgeEvaluation
  | CHATBOT_REFINING
  | FINAL_RESPONSE
  | ERROR string

text \<open>
  \<open>WebSocketClient.handleEvent\<close> with the registrations of the mount effect
  (\<open>wsClient.on(...)\<close>): the handler of the event's type runs. No handler is registered
  for \<open>user_message\<close> and \<open>chatbot_refining\<close>.
\<close>

fun runHandlers ::
  "bool \<Rightarrow> bool \<Rightarrow> string \<Rightarrow> string \<Rightarrow> WebSocketEvent \<Rightarrow> ChatUI \<Rightarrow> ChatUI" where
  "runHandlers stopped eager nowMs nowIso CHATBOT_GENERATING s = handleGenerating s"
| "runHandlers stopped eager nowMs nowIso JUDGE_INPUT_CRITIQUE s = handleInputCritique s"
| "runHandlers stopped eager nowMs nowIso (CHATBOT_CHUNK chunk) s =
     handleChatbotChunk stopped chunk s"
| "runHandlers stopped eager nowMs nowIso (CHATBOT_RESPONSE d) s =
     handleChatbotResponse nowMs nowIso d s"
| "runHandlers stopped eager nowMs nowIso JUDGE_EVALUATING s = handleJudgeEvaluating stopped s"
| "runHandlers stopped eager nowMs nowIso (JUDGE_CRITERION_RESULT c) s =
     handleJudgeCriterionResult stopped eager c s"
| "runHandlers stopped eager nowMs nowIso (JUDGE_RESULT ev) s = handleJudgeResult stopped ev s"
| "runHandlers stopped eager nowMs nowIso FINAL_RESPONSE s = handleFinalResponse s"
| "runHandlers stopped eager nowMs nowIso (ERROR err) s = handleError err s"
| "runHandlers stopped eager nowMs nowIso (USER_INPUT_EVALUATION c m) s =
     handleUserInputEvaluation c m s"
| "runHandlers stopped eager nowMs nowIso USER_MESSAGE s = s"
| "runHandlers stopped eager nowMs nowIso CHATBOT_REFINING s = s"

text \<open>The effects of the render that follows an event: the one on \<open>[inputEvaluation]\<close>,
  after the only event whose handler sets that cell.\<close>

fun effectsAfter :: "WebSocketEvent \<Rightarrow> ChatUI \<Rightarrow> ChatUI" where
  "effectsAfter (USER_INPUT_EVALUATION c m) s = inputEvaluationEffect s"
| "effectsAfter ev s = s"

text \<open>
  The delivery of one event that is followed by a render before the next event is
  handled: the handlers run, the render runs the waiting writes, then its effects run.
\<close>

definition handleEvent ::
  "bool \<Rightarrow> string \<Rightarrow> string \<Rightarrow> WebSocketEvent \<Rightarrow> ChatUI \<Rightarrow> ChatUI" where
  "handleEvent stopped nowMs nowIso ev s =
     effectsAfter ev (render (runHandlers stopped False nowMs nowIso ev s))"

subsection \<open>Observations\<close>

text \<open>The criterion results accumulated for the evaluation in progress: the
  \<open>criteria_scores\<close> of the cell \<open>streamingCriteria\<close>, none while the cell is \<open>null\<close>.\<close>

definition accumulatedCriteria :: "ChatUI \<Rightarrow> CriterionScore list" where
  "accumulatedCriteria s =
     (case streamingCriteria s of None \<Rightarrow> [] | Some e \<Rightarrow> criteria_scores e)"

definition lastIsAssistant :: "ChatUI \<Rightarrow> bool" where
  "lastIsAssistant s = (messages s \<noteq> [] \<and> role (last (messages s)) = ASSISTANT)"

text \<open>The roles and contents of a history, and the content of its last user message.\<close>

definition outline :: "Message list \<Rightarrow> (MessageRole \<times> string) list" where
  "outline ms = map (\<lambda>m. (role m, content m)) ms"

definition lastUserContent :: "Message list \<Rightarrow> string option" where
  "lastUserContent ms =
     (let us = filter (\<lambda>p. fst p = USER) (outline ms)
      in if us = [] then None else Some (snd (last us)))"

text \<open>
  The states the component can be in: the state at mount, and the state after any control
  handler, any handled event (with or without a render after it), any render and any run
  of the effect, whatever value of \<open>isStopped\<close> the handlers read.
\<close>

inductive reachable :: "ChatUI \<Rightarrow> bool" where
  mounted: "reachable initialChatUI"
| typed: "reachable s \<Longrightarrow> reachable (handleInputChange v s)"
| sent: "reachable s \<Longrightarrow> reachable (fst (handleSend nowMs nowIso s))"
| stopped: "reachable s \<Longrightarrow> reachable (handleStop s)"
| retried: "reachable s \<Longrightarrow> reachable (fst (handleRetry eager s))"
| delivered: "reachable s \<Longrightarrow> reachable (handleEvent seen nowMs nowIso ev s)"
| handled: "reachable s \<Longrightarrow> reachable (runHandlers seen eager nowMs nowIso ev s)"
| rendered: "reachable s \<Longrightarrow> reachable (render s)"
| effected: "reachable s \<Longrightarrow> reachable (inputEvaluationEffect s)"

text \<open>The cell \<open>lastUserMessage\<close>, once set, holds the content of the last user message
  of the history.\<close>

definition remembered :: "ChatUI \<Rightarrow> bool" where
  "remembered s =
     (lastUserMessage s \<noteq> [] \<longrightarrow> lastUserContent (messages s) = Some (lastUserMessage s))"

section \<open>The judge panel (JudgePanel)\<close>



section \<open>The evaluation engine\<close>

text \<open>The type \<open>Criterion\<close> of \<open>types/index.ts\<close>; its fields \<open>name\<close>, \<open>weight\<close> and
  \<open>threshold\<close> carry the prefix \<open>criterion_\<close> here.\<close>

record Criterion =
  criterion_name :: string
  description :: string
  criterion_weight :: real
  enabled :: bool
  criterion_threshold :: real
  evaluation_prompt :: "string option"

datatype evaluation_error = EvaluationError

text \<open>
  Modelled from the spec: the judge capability \<open>score(content, criterion)\<close>, which returns
  a score and a feedback text or fails (\<open>None\<close>). The service that implements it is not
  among the sources.
\<close>

type_synonym capability = "string \<Rightarrow> Criterion \<Rightarrow> (real \<times> string) option"

text \<open>
  Modelled from the spec: the CriterionResult built from a criterion and the score and
  feedback the capability returned for it, with \<open>passed = score >= threshold\<close>.
\<close>

definition criterionResult :: "Criterion \<Rightarrow> real \<Rightarrow> string \<Rightarrow> CriterionScore" where
  "criterionResult c sc fb =
     \<lparr>name = criterion_name c, score = sc, weight = criterion_weight c,
      threshold = criterion_threshold c,
      passed = (sc \<ge> criterion_threshold c), feedback = Some fb\<rparr>"

text \<open>
  Modelled from the spec: the per-criterion loop of \<open>evaluate\<close>, which is not among the
  sources. For each criterion in order the capability is called once; its return is
  turned into a CriterionResult, emitted through
  \<open>on_criterion_result\<close> and appended to the result list. A failing call ends the loop:
  no result list is returned. The triple is the result list (or the failure), the
  capability calls made, and the results emitted.
\<close>

primrec scoreCriteria ::
  "capability \<Rightarrow> string \<Rightarrow> Criterion list
     \<Rightarrow> CriterionScore list option \<times> Criterion list \<times> CriterionScore list" where
  "scoreCriteria cap input [] = (Some [], [], [])"
| "scoreCriteria cap input (c # cs) =
     (case cap input c of
        None \<Rightarrow> (None, [c], [])
      | Some (sc, fb) \<Rightarrow>
          (let r = criterionResult c sc fb;
               (rest, calls, out) = scoreCriteria cap input cs
           in (map_option ((#) r) rest, c # calls, r # out)))"

text \<open>
  Modelled from the spec: the aggregate
  \<open>overall = sum (score_i * weight_i) / sum weight_i\<close> over the results.
\<close>

definition aggregateScore :: "CriterionScore list \<Rightarrow> real" where
  "aggregateScore rs =
     sum_list (map (\<lambda>r. score r * weight r) rs) / sum_list (map weight rs)"

text \<open>
  Modelled from the spec: the regeneration decision
  \<open>should_regenerate = overall < active_profile.overall_threshold OR some enabled criterion
  has score < its own threshold\<close>.
\<close>

definition regenerationDecision :: "real \<Rightarrow> real \<Rightarrow> CriterionScore list \<Rightarrow> bool" where
  "regenerationDecision overall overall_threshold rs =
     (overall < overall_threshold \<or> (\<exists>r \<in> set rs. score r < threshold r))"

text \<open>The glyph of a light, in UTF-8.\<close>

fun glyph :: "light \<Rightarrow> string" where
  "glyph Green = [CHR 0xF0, CHR 0x9F, CHR 0x9F, CHR 0xA2]"
| "glyph Orange = [CHR 0xF0, CHR 0x9F, CHR 0x9F, CHR 0xA0]"
| "glyph Red = [CHR 0xF0, CHR 0x9F, CHR 0x94, CHR 0xB4]"

text \<open>The part of a CriteriaConfig an evaluation reads: the overall threshold of the
  active profile and the two traffic-light bounds.\<close>

record evaluate_settings =
  overall_threshold :: real
  green_threshold :: real
  orange_threshold :: real

text \<open>What a run of \<open>evaluate\<close> leaves: the Evaluation or the error, the capability calls
  made, and the results emitted through \<open>on_criterion_result\<close>, each in order.\<close>

record evaluate_run =
  outcome :: "evaluation_error + JudgeEvaluation"
  capability_calls :: "Criterion list"
  emitted :: "CriterionScore list"

text \<open>
  Modelled from the spec: \<open>evaluate(content, criteria, on_criterion_result)\<close> of the
  Evaluation Engine, which is not among the sources. The enabled criteria are taken in
  declaration order; a zero sum of their weights fails with \<open>EvaluationError\<close> before
  any capability call; a failing capability call fails the whole evaluation; otherwise
  the Evaluation holds the aggregate score, the results, the regeneration decision,
  one suggestion \<open>name: feedback\<close> per failing criterion and the light of the overall
  score. The spec does not say how the feedback text of the Evaluation is built:
  \<open>summary\<close> stands for it.
\<close>

definition evaluate ::
  "capability \<Rightarrow> (CriterionScore list \<Rightarrow> string) \<Rightarrow> evaluate_settings \<Rightarrow> string
     \<Rightarrow> Criterion list \<Rightarrow> evaluate_run" where
  "evaluate cap summary cfg input criteria =
     (let active = filter enabled criteria in
      if sum_list (map criterion_weight active) = 0 then
        \<lparr>outcome = Inl EvaluationError, capability_calls = [], emitted = []\<rparr>
      else
        case scoreCriteria cap input active of
          (None, calls, out) \<Rightarrow>
            \<lparr>outcome = Inl EvaluationError, capability_calls = calls, emitted = out\<rparr>
        | (Some rs, calls, out) \<Rightarrow>
            (let overall = aggregateScore rs in
             \<lparr>outcome =
                Inr \<lparr>overall_score = overall,
                     criteria_scores = rs,
                     eval_feedback = summary rs,
                     should_regenerate =
                       regenerationDecision overall (overall_threshold cfg) rs,
                     suggestions =
                       map (\<lambda>r. name r @ '': '' @ (case feedback r of None \<Rightarrow> [] | Some fb \<Rightarrow> fb))
                           (filter (\<lambda>r. \<not> passed r) rs),
                     traffic_light =
                       glyph (getIndicator overall (green_threshold cfg) (orange_threshold cfg))\<rparr>,
              capability_calls = calls,
              emitted = out\<rparr>))"

section \<open>Sample runs\<close>

definition sampleCriterion :: CriterionScore where
  "sampleCriterion =
     \<lparr>name = ''clarity'', score = 55, weight = 0.5, threshold = 70, passed = False,
      feedback = Some ''vague''\<rparr>"

definition otherCriterion :: CriterionScore where
  "otherCriterion =
     \<lparr>name = ''relevance'', score = 90, weight = 0.5, threshold = 70, passed = True,
      feedback = None\<rparr>"

definition sampleEvaluation :: JudgeEvaluation where
  "sampleEvaluation =
     \<lparr>overall_score = 72.5, criteria_scores = [sampleCriterion, otherCriterion],
      eval_feedback = ''fair'', should_regenerate = True, suggestions = [''clarity: vague''],
      traffic_light = glyph Green\<rparr>"

text \<open>The user types "first" and sends it (clock reading 1000).\<close>

definition sentFirst :: ChatUI where
  "sentFirst = fst (handleSend ''1000'' ''t0'' (handleInputChange ''first'' initialChatUI))"

text \<open>The response to it arrives (clock reading 1001).\<close>

definition answeredFirst :: ChatUI where
  "answeredFirst =
     handleChatbotResponse ''1001'' ''t1''
       \<lparr>response = ''answer'', response_iteration = Some 1,
        response_conversation_id = Some ''conv''\<rparr>
       sentFirst"

text \<open>Instead, the user presses stop right after sending.\<close>

definition stoppedFirst :: ChatUI where
  "stoppedFirst = handleStop sentFirst"

text \<open>Then types "second" and sends it (clock reading 1002).\<close>

definition sentSecond :: ChatUI where
  "sentSecond = fst (handleSend ''1002'' ''t2'' (handleInputChange ''second'' stoppedFirst))"

text \<open>
  After the response, two frames are handled before the next render: a criterion result,
  whose updater waits for the render, and the judge result.
\<close>

definition judgedInOneBatch :: ChatUI where
  "judgedInOneBatch =
     render
       (handleJudgeResult False sampleEvaluation
          (handleJudgeCriterionResult False False sampleCriterion answeredFirst))"

text \<open>The same with two criterion results before the judge result; the updater of the
  first runs at the call or not (\<open>eager\<close>), the second finds an update pending and
  waits.\<close>

definition judgedAfterTwo :: "bool \<Rightarrow> ChatUI" where
  "judgedAfterTwo eager =
     render
       (handleJudgeResult False sampleEvaluation
          (handleJudgeCriterionResult False False otherCriterion
             (handleJudgeCriterionResult False eager sampleCriterion answeredFirst)))"



text \<open>A client whose socket has closed, with one text transmitted earlier and one
  handler registered.\<close>

definition closedClient :: "nat WebSocketClient" where
  "closedClient =
     \<lparr>ws = Some \<lparr>readyState = CLOSED, transmitted = [''earlier'']\<rparr>,
      url = ''ws://localhost:8000/ws/chat'',
      handlers = [''error'' \<mapsto> [0]],
      reconnectAttempts = 5, maxReconnectAttempts = 5, reconnectDelay = 1000\<rparr>"

text \<open>The two criteria and the scores of the example of the spec.\<close>

definition accuracy :: Criterion where
  "accuracy =
     \<lparr>criterion_name = ''accuracy'', description = [], criterion_weight = 0.5,
      enabled = True, criterion_threshold = 70, evaluation_prompt = None\<rparr>"

definition relevance :: Criterion where
  "relevance =
     \<lparr>criterion_name = ''relevance'', description = [], criterion_weight = 0.5,
      enabled = True, criterion_threshold = 70, evaluation_prompt = None\<rparr>"

definition exampleScore :: "Criterion \<Rightarrow> real" where
  "exampleScore c = (if criterion_name c = ''accuracy'' then 80 else 60)"

definition exampleCapability :: capability where
  "exampleCapability input c = Some (exampleScore c, ''noted'')"

definition exampleSettings :: evaluate_settings where
  "exampleSettings = \<lparr>overall_threshold = 60, green_threshold = 70, orange_threshold = 40\<rparr>"


section \<open>Properties of double-precision rounding\<close>









section \<open>Properties of the traffic light\<close>

lemma getIndicator_cases:
  "getIndicator s g t = Green \<or> getIndicator s g t = Orange \<or> getIndicator s g t = Red"
  by (simp add: getIndicator_def)

text \<open>
  Claim C1. For every score in [0,100] and every bound pair with
  green_threshold > orange_threshold >= 0, the classification is green exactly when
  score >= green_threshold, orange exactly when orange_threshold <= score < green_threshold,
  and red exactly when score < orange_threshold; exactly one of the three range conditions
  holds, so the buckets are exhaustive and mutually exclusive. The inline classifier of the
  Message component is the instance with the pair (70, 40).
\<close>

theorem traffic_light_buckets:
  assumes "0 \<le> s" and "s \<le> 100" and "g > t" and "t \<ge> 0"
  shows "(getIndicator s g t = Green) = (s \<ge> g)
       \<and> (getIndicator s g t = Orange) = (t \<le> s \<and> s < g)
       \<and> (getIndicator s g t = Red) = (s < t)
       \<and> ((s \<ge> g) \<or> (t \<le> s \<and> s < g) \<or> (s < t))
       \<and> \<not> ((s \<ge> g) \<and> (t \<le> s \<and> s < g))
       \<and> \<not> ((s \<ge> g) \<and> (s < t))
       \<and> \<not> ((t \<le> s \<and> s < g) \<and> (s < t))
       \<and> getTrafficLightColor s = getIndicator s 70 40"
  using assms by (auto simp: getIndicator_def getTrafficLightColor_def)

theorem traffic_light_buckets_witness:
  "(0::real) \<le> 55 \<and> (55::real) \<le> 100 \<and> (70::real) > 40 \<and> (40::real) \<ge> 0
   \<and> getIndicator 55 70 40 = Orange \<and> getIndicator 55 70 40 \<noteq> Green
   \<and> getIndicator 55 70 40 \<noteq> Red"
proof -
  have h: "(0::real) \<le> 55" "(55::real) \<le> 100" "(70::real) > 40" "(40::real) \<ge> 0"
    by simp_all
  from traffic_light_buckets [OF h]
  have o: "getIndicator 55 70 40 = Orange" by simp
  from o h show ?thesis by simp
qed

text \<open>
  Claim C9. The inline per-message light uses the fixed bounds 70 and 40, whatever traffic
  light thresholds a criteria configuration holds (the function takes the score only):
  green exactly when score >= 70, orange exactly when 40 <= score < 70, red exactly when
  score < 40. The standalone TrafficLight component with both optional bounds absent
  classifies with the same pair. The lights under a message are this classification of
  the scores of the criteria shown for it, whatever thresholds the criteria carry.
\<close>

theorem inline_light_fixed_bounds:
  "(getTrafficLightColor s = Green) = (s \<ge> 70)
   \<and> (getTrafficLightColor s = Orange) = (40 \<le> s \<and> s < 70)
   \<and> (getTrafficLightColor s = Red) = (s < 40)
   \<and> TrafficLight s None None = getIndicator s 70 40
   \<and> TrafficLight s None None = getTrafficLightColor s
   \<and> Message_lights m =
       map (\<lambda>c. (name c, getIndicator (score c) 70 40))
           (case trafficLights m of None \<Rightarrow> [] | Some cs \<Rightarrow> cs)"
proof -
  have same: "getTrafficLightColor x = getIndicator x 70 40" for x
    by (simp add: getTrafficLightColor_def getIndicator_def)
  have lights: "Message_lights m =
       map (\<lambda>c. (name c, getIndicator (score c) 70 40))
           (case trafficLights m of None \<Rightarrow> [] | Some cs \<Rightarrow> cs)"
    by (simp add: Message_lights_def same split: option.splits)
  show ?thesis
    using lights
    by (auto simp: getTrafficLightColor_def TrafficLight_def getIndicator_def)
qed

section \<open>Properties of the channel client\<close>

text \<open>
  Claim C10. For every event type and payload, \<open>send\<close> on a client whose socket is absent
  or not in the OPEN state returns normally (no exception), leaves the client as it was
  (socket reference, the texts the socket has transmitted, handler registry and every
  other field), and only writes one line to the console.
\<close>

theorem send_when_not_connected:
  assumes "\<not> isConnected c"
  shows "send stringify now eventType d c = Inr (c, [''WebSocket is not connected''])"
  using assms by (auto simp: send_def isConnected_def split: option.splits)

theorem send_when_not_connected_witness:
  "\<not> isConnected closedClient
   \<and> send (\<lambda>f. None) ''t0'' ''user_message'' (7::nat) closedClient
       = Inr (closedClient, [''WebSocket is not connected''])"
proof -
  have h: "\<not> isConnected closedClient"
    by (simp add: closedClient_def isConnected_def)
  from send_when_not_connected [OF h] h show ?thesis by simp
qed

lemma send_when_absent:
  "ws c = None \<Longrightarrow> \<not> isConnected c"
  by (simp add: isConnected_def)

lemma send_when_connected:
  assumes "ws c = Some sock" and "readyState sock = OPEN"
    and "stringify \<lparr>event = eventType, data = d, frame_timestamp = now\<rparr> = Some txt"
  shows "send stringify now eventType d c =
           Inr (c\<lparr>ws := Some (sock\<lparr>transmitted := transmitted sock @ [txt]\<rparr>)\<rparr>, [])"
  using assms by (simp add: send_def)

section \<open>Properties of the chat component\<close>

subsection \<open>The last message of the history\<close>

text \<open>The indexed update the two judge handlers make, read as an update of the last
  element.\<close>

lemma update_last_conv:
  "(if int (length xs) - 1 \<ge> 0 \<and> P (xs ! nat (int (length xs) - 1))
    then xs[nat (int (length xs) - 1) := f (xs ! nat (int (length xs) - 1))]
    else xs)
   = (if xs \<noteq> [] \<and> P (last xs) then butlast xs @ [f (last xs)] else xs)"
proof (cases xs rule: rev_cases)
  case Nil
  then show ?thesis by simp
next
  case (snoc ys y)
  have "nat (int (length xs) - 1) = length ys"
    using snoc by simp
  then show ?thesis
    using snoc by simp
qed

lemma handleJudgeResult_messages:
  "messages (handleJudgeResult False ev s) =
     (if messages s \<noteq> [] \<and> role (last (messages s)) = ASSISTANT
      then butlast (messages s) @
           [(last (messages s))
              \<lparr>metadata := (metadata (last (messages s)))
                 \<lparr>evaluation := Some ev, streaming_evaluation := None\<rparr>\<rparr>]
      else messages s)"
  unfolding handleJudgeResult_def Let_def
  using update_last_conv [of "messages s" "\<lambda>m. role m = ASSISTANT"
      "\<lambda>m. m\<lparr>metadata := (metadata m)\<lparr>evaluation := Some ev, streaming_evaluation := None\<rparr>\<rparr>"]
  by simp

lemma handleJudgeResult_cells:
  "streamingCriteria (handleJudgeResult False ev s) = None
   \<and> currentEvaluation (handleJudgeResult False ev s) = Some ev
   \<and> app_currentEvaluation (handleJudgeResult False ev s) = Some ev
   \<and> isJudging (handleJudgeResult False ev s) = False"
  by (simp add: handleJudgeResult_def Let_def)

subsection \<open>The sample runs, evaluated\<close>

lemma sentFirst_value:
  "sentFirst =
     \<lparr>messages =
        [\<lparr>msg_id = ''msg_1000'', role = USER, content = ''first'', timestamp = ''t0'',
          metadata = \<lparr>iteration = None, streaming_evaluation = None, evaluation = None,
                      md_inputEvaluation = None\<rparr>\<rparr>],
      inputValue = [], isLoading = True, isJudging = False,
      currentEvaluation = None, streamingCriteria = None, streamingMessage = [],
      lastUserMessage = ''first'', conversationId = None, mode = INPUT_CRITIQUE,
      inputEvaluation = Some (placeholderEvaluation []), isStopped = False,
      app_currentEvaluation = None, app_currentIteration = None, alerts = [],
      deferredWrites = []\<rparr>"
  by (simp add: sentFirst_def handleSend_def handleInputChange_def initialChatUI_def
      trim_def whiteSpace_def Let_def)

lemma answeredFirst_value:
  "answeredFirst =
     \<lparr>messages =
        [\<lparr>msg_id = ''msg_1000'', role = USER, content = ''first'', timestamp = ''t0'',
          metadata = \<lparr>iteration = None, streaming_evaluation = None, evaluation = None,
                      md_inputEvaluation = None\<rparr>\<rparr>,
         \<lparr>msg_id = ''msg_1001'', role = ASSISTANT, content = ''answer'', timestamp = ''t1'',
          metadata = \<lparr>iteration = Some 1, streaming_evaluation = None, evaluation = None,
                      md_inputEvaluation = None\<rparr>\<rparr>],
      inputValue = [], isLoading = False, isJudging = False,
      currentEvaluation = None, streamingCriteria = None, streamingMessage = [],
      lastUserMessage = ''first'', conversationId = Some ''conv'', mode = INPUT_CRITIQUE,
      inputEvaluation = Some (placeholderEvaluation []), isStopped = False,
      app_currentEvaluation = None, app_currentIteration = Some 1, alerts = [],
      deferredWrites = []\<rparr>"
  by (simp add: answeredFirst_def sentFirst_value handleChatbotResponse_def Let_def
      truthy_string_def truthy_number_def)

lemma stoppedFirst_value:
  "stoppedFirst =
     \<lparr>messages =
        [\<lparr>msg_id = ''msg_1000'', role = USER, content = ''first'', timestamp = ''t0'',
          metadata = \<lparr>iteration = None, streaming_evaluation = None, evaluation = None,
                      md_inputEvaluation = None\<rparr>\<rparr>],
      inputValue = [], isLoading = False, isJudging = False,
      currentEvaluation = None, streamingCriteria = None, streamingMessage = [],
      lastUserMessage = ''first'', conversationId = None, mode = INPUT_CRITIQUE,
      inputEvaluation = Some (placeholderEvaluation []), isStopped = True,
      app_currentEvaluation = None, app_currentIteration = None, alerts = [],
      deferredWrites = []\<rparr>"
  by (simp add: stoppedFirst_def sentFirst_value handleStop_def)

lemma sentSecond_value:
  "sentSecond =
     \<lparr>messages =
        [\<lparr>msg_id = ''msg_1000'', role = USER, content = ''first'', timestamp = ''t0'',
          metadata = \<lparr>iteration = None, streaming_evaluation = None, evaluation = None,
                      md_inputEvaluation = None\<rparr>\<rparr>,
         \<lparr>msg_id = ''msg_1002'', role = USER, content = ''second'', timestamp = ''t2'',
          metadata = \<lparr>iteration = None, streaming_evaluation = None, evaluation = None,
                      md_inputEvaluation = None\<rparr>\<rparr>],
      inputValue = [], isLoading = True, isJudging = False,
      currentEvaluation = None, streamingCriteria = None, streamingMessage = [],
      lastUserMessage = ''second'', conversationId = None, mode = INPUT_CRITIQUE,
      inputEvaluation = Some (placeholderEvaluation []), isStopped = False,
      app_currentEvaluation = None, app_currentIteration = None, alerts = [],
      deferredWrites = []\<rparr>"
  by (simp add: sentSecond_def stoppedFirst_value handleSend_def handleInputChange_def
      trim_def whiteSpace_def Let_def)

subsection \<open>The nested history write\<close>

lemma streamingWrite_conv:
  "streamingWrite u ms =
     (if ms \<noteq> [] \<and> role (last ms) = ASSISTANT
      then butlast ms @
           [(last ms)\<lparr>metadata := (metadata (last ms))\<lparr>streaming_evaluation := Some u\<rparr>\<rparr>]
      else ms)"
  unfolding streamingWrite_def Let_def
  using update_last_conv [of ms "\<lambda>m. role m = ASSISTANT"
      "\<lambda>m. m\<lparr>metadata := (metadata m)\<lparr>streaming_evaluation := Some u\<rparr>\<rparr>"]
  by simp

lemma fold_streamingWrite:
  "ms \<noteq> [] \<Longrightarrow> role (last ms) = ASSISTANT \<Longrightarrow> us \<noteq> [] \<Longrightarrow>
   fold streamingWrite us ms =
     butlast ms @
     [(last ms)\<lparr>metadata := (metadata (last ms))\<lparr>streaming_evaluation := Some (last us)\<rparr>\<rparr>]"
proof (induction us arbitrary: ms)
  case Nil
  then show ?case by simp
next
  case (Cons w us)
  show ?case
  proof (cases "us = []")
    case True
    with Cons.prems show ?thesis by (simp add: streamingWrite_conv)
  next
    case False
    let ?ms = "streamingWrite w ms"
    have ms: "?ms = butlast ms @
        [(last ms)\<lparr>metadata := (metadata (last ms))\<lparr>streaming_evaluation := Some w\<rparr>\<rparr>]"
      using Cons.prems by (simp add: streamingWrite_conv)
    then have 1: "?ms \<noteq> []" and 2: "role (last ?ms) = ASSISTANT"
      using Cons.prems by simp_all
    from Cons.IH [OF 1 2 False] False show ?thesis
      by (simp add: ms)
  qed
qed

lemma fold_streamingWrite_other:
  assumes "\<not> (ms \<noteq> [] \<and> role (last ms) = ASSISTANT)"
  shows "fold streamingWrite us ms = ms"
proof (induction us)
  case Nil
  show ?case by simp
next
  case (Cons u us)
  have "streamingWrite u ms = ms"
    using assms by (auto simp: streamingWrite_conv)
  with Cons show ?case by simp
qed

lemma render_nothing_waiting:
  "deferredWrites s = [] \<Longrightarrow> render s = s"
  by (simp add: render_def)

lemma render_lastIsAssistant:
  "lastIsAssistant (render s) = lastIsAssistant s"
proof (cases "deferredWrites s = []")
  case True
  then show ?thesis by (simp add: render_nothing_waiting)
next
  case False
  show ?thesis
  proof (cases "messages s \<noteq> [] \<and> role (last (messages s)) = ASSISTANT")
    case True
    with False show ?thesis
      by (simp add: lastIsAssistant_def render_def fold_streamingWrite)
  next
    case False
    then show ?thesis
      by (simp add: lastIsAssistant_def render_def fold_streamingWrite_other)
  qed
qed

subsection \<open>Judge result\<close>

text \<open>
  When nothing waits for the render, a delivered \<open>judge_result\<close> stores the final
  evaluation in the metadata of the last message and clears its streaming evaluation if
  that message is an assistant message, and leaves the history as it is otherwise.
\<close>

lemma judge_result_nothing_waiting:
  assumes "\<not> stopped" and "deferredWrites s = []"
  shows "(messages s \<noteq> [] \<and> role (last (messages s)) = ASSISTANT \<longrightarrow>
            messages (handleEvent stopped nowMs nowIso (JUDGE_RESULT ev) s) =
              butlast (messages s) @
              [(last (messages s))
                 \<lparr>metadata := (metadata (last (messages s)))
                    \<lparr>evaluation := Some ev, streaming_evaluation := None\<rparr>\<rparr>])
       \<and> (\<not> (messages s \<noteq> [] \<and> role (last (messages s)) = ASSISTANT) \<longrightarrow>
            messages (handleEvent stopped nowMs nowIso (JUDGE_RESULT ev) s) = messages s)"
proof -
  have "deferredWrites (handleJudgeResult False ev s) = []"
    using assms(2) by (simp add: handleJudgeResult_def Let_def)
  then have "render (handleJudgeResult False ev s) = handleJudgeResult False ev s"
    by (rule render_nothing_waiting)
  then show ?thesis
    using assms(1) by (simp add: handleEvent_def handleJudgeResult_messages)
qed

text \<open>
  Claim C8, at a failing run. The response to "first" is the last message, an assistant
  message. A \<open>judge_criterion_result\<close> frame and the \<open>judge_result\<close> frame are handled
  before the next render, and the updater of the criterion result waits for that render.
  The judge result is attached to the last message, but the history write of the waiting
  updater runs after the clearing write of \<open>handleJudgeResult\<close>: the streaming evaluation
  of the last message is set, not cleared, and the lights under the message are those of
  the partial evaluation. The same holds after two criterion results, whether the updater
  of the first ran at the call or not.
\<close>

theorem judge_result_leaves_streaming_evaluation:
  "lastIsAssistant answeredFirst
   \<and> deferredWrites answeredFirst = []
   \<and> map (evaluation \<circ> metadata) (messages judgedInOneBatch) = [None, Some sampleEvaluation]
   \<and> map (streaming_evaluation \<circ> metadata) (messages judgedInOneBatch) =
       [None, Some (placeholderEvaluation [sampleCriterion])]
   \<and> trafficLights (last (messages judgedInOneBatch)) = Some [sampleCriterion]
   \<and> streamingCriteria judgedInOneBatch = None
   \<and> map (streaming_evaluation \<circ> metadata) (messages (judgedAfterTwo True)) =
       [None, Some (placeholderEvaluation [sampleCriterion, otherCriterion])]
   \<and> map (streaming_evaluation \<circ> metadata) (messages (judgedAfterTwo False)) =
       [None, Some (placeholderEvaluation [sampleCriterion, otherCriterion])]
   \<and> map (evaluation \<circ> metadata) (messages (judgedAfterTwo True)) =
       [None, Some sampleEvaluation]"
  by (simp add: judgedInOneBatch_def judgedAfterTwo_def answeredFirst_value lastIsAssistant_def
      render_def handleJudgeCriterionResult_def handleJudgeResult_messages
      handleJudgeResult_def Let_def streamingWrite_conv trafficLights_def
      placeholderEvaluation_def)

subsection \<open>Streamed criterion results\<close>

lemma accumulated_step:
  "accumulatedCriteria (handleJudgeCriterionResult False eager c s) =
     accumulatedCriteria s @ [c]"
  by (simp add: accumulatedCriteria_def handleJudgeCriterionResult_def Let_def
      placeholderEvaluation_def split: option.splits)

lemma accumulated_fold:
  "accumulatedCriteria (handleCriterionResults False ecs s) =
     accumulatedCriteria s @ map snd ecs"
  unfolding handleCriterionResults_def
  by (induction ecs arbitrary: s) (simp_all add: accumulated_step split: prod.splits)

lemma accumulated_evaluating:
  "accumulatedCriteria (handleJudgeEvaluating False s) = []"
  by (simp add: accumulatedCriteria_def handleJudgeEvaluating_def placeholderEvaluation_def)

lemma accumulated_render:
  "accumulatedCriteria (render s) = accumulatedCriteria s"
  by (simp add: accumulatedCriteria_def render_def)

lemma accumulated_delivered:
  "accumulatedCriteria
     (fold (\<lambda>c. handleEvent False nowMs nowIso (JUDGE_CRITERION_RESULT c)) cs s) =
     accumulatedCriteria s @ cs"
  by (induction cs arbitrary: s)
     (simp_all add: handleEvent_def accumulated_render accumulated_step)

lemma criterion_step_last:
  "lastIsAssistant (handleJudgeCriterionResult False eager c s) = lastIsAssistant s"
  by (simp add: lastIsAssistant_def handleJudgeCriterionResult_def Let_def streamingWrite_conv)

lemma criterion_fold_last:
  "lastIsAssistant (handleCriterionResults False ecs s) = lastIsAssistant s"
  unfolding handleCriterionResults_def
  by (induction ecs arbitrary: s) (simp_all add: criterion_step_last split: prod.splits)

text \<open>After a criterion result and the render, the criteria shown under the last
  assistant message are the accumulated ones, whether the history write was run at the
  call or waited.\<close>

lemma criterion_step_shown:
  assumes "lastIsAssistant s"
  shows "trafficLights
           (last (messages (render (handleJudgeCriterionResult False eager c s)))) =
         Some (accumulatedCriteria (handleJudgeCriterionResult False eager c s))"
proof (cases "eager \<and> deferredWrites s = []")
  case True
  then show ?thesis
    using assms
    by (simp add: handleJudgeCriterionResult_def Let_def render_def streamingWrite_conv
        lastIsAssistant_def trafficLights_def accumulatedCriteria_def)
next
  case False
  let ?u = "case streamingCriteria s of
              Some prev \<Rightarrow> prev\<lparr>criteria_scores := criteria_scores prev @ [c]\<rparr>
            | None \<Rightarrow> placeholderEvaluation [c]"
  have h: "handleJudgeCriterionResult False eager c s =
             s\<lparr>streamingCriteria := Some ?u, deferredWrites := deferredWrites s @ [?u]\<rparr>"
    using False by (auto simp: handleJudgeCriterionResult_def Let_def)
  have m: "messages (render (handleJudgeCriterionResult False eager c s)) =
             butlast (messages s) @
             [(last (messages s))
                \<lparr>metadata := (metadata (last (messages s)))
                   \<lparr>streaming_evaluation := Some ?u\<rparr>\<rparr>]"
    using assms fold_streamingWrite [of "messages s" "deferredWrites s @ [?u]"]
    by (simp add: h render_def lastIsAssistant_def)
  from m have l: "last (messages (render (handleJudgeCriterionResult False eager c s))) =
             (last (messages s))
                \<lparr>metadata := (metadata (last (messages s)))
                   \<lparr>streaming_evaluation := Some ?u\<rparr>\<rparr>"
    by simp
  have a: "accumulatedCriteria (handleJudgeCriterionResult False eager c s) =
             criteria_scores ?u"
    by (simp add: h accumulatedCriteria_def)
  show ?thesis
    unfolding l a
    using assms by (simp add: lastIsAssistant_def trafficLights_def)
qed

lemma criterion_fold_shown:
  assumes "lastIsAssistant s" and "ecs \<noteq> []"
  shows "trafficLights (last (messages (render (handleCriterionResults False ecs s)))) =
         Some (accumulatedCriteria (handleCriterionResults False ecs s))"
proof -
  from \<open>ecs \<noteq> []\<close> obtain ds e d where ecs: "ecs = ds @ [(e, d)]"
    by (cases ecs rule: rev_cases) auto
  let ?t = "handleCriterionResults False ds s"
  have la: "lastIsAssistant ?t"
    using assms(1) by (simp add: criterion_fold_last)
  have f: "handleCriterionResults False ecs s = handleJudgeCriterionResult False e d ?t"
    by (simp add: ecs handleCriterionResults_def)
  from criterion_step_shown [OF la, of e d] show ?thesis
    unfolding f .
qed

lemma lastIsAssistant_evaluating:
  "lastIsAssistant (handleJudgeEvaluating False s) = lastIsAssistant s"
  by (simp add: lastIsAssistant_def handleJudgeEvaluating_def)

text \<open>
  Claim C4. While the handler's \<open>isStopped\<close> is false, each \<open>judge_criterion_result\<close>
  event leaves the accumulated criterion list equal to the list before it followed by the
  received criterion, whether its updater runs at the call or waits for the render; a
  sequence of such events, handled in one batch or each followed by a render, leaves the
  list before followed by the received criteria in arrival order; and after the
  \<open>judge_evaluating\<close> event that opens an evaluation, the accumulated list is exactly the
  sequence received. When the last message is an assistant message and at least one
  result has been received, the criteria shown under that message after the render are
  that same sequence.
\<close>

theorem criterion_results_accumulate_in_order:
  assumes "\<not> stopped"
  shows "accumulatedCriteria (handleJudgeCriterionResult stopped eager c s) =
           accumulatedCriteria s @ [c]
       \<and> accumulatedCriteria (handleCriterionResults stopped ecs s) =
           accumulatedCriteria s @ map snd ecs
       \<and> accumulatedCriteria
           (handleCriterionResults stopped ecs (handleJudgeEvaluating stopped s)) = map snd ecs
       \<and> accumulatedCriteria
           (fold (\<lambda>c. handleEvent stopped nowMs nowIso (JUDGE_CRITERION_RESULT c)) cs
              (handleEvent stopped nowMs nowIso JUDGE_EVALUATING s)) = cs
       \<and> (lastIsAssistant s \<and> ecs \<noteq> [] \<longrightarrow>
            trafficLights
              (last (messages
                 (render
                    (handleCriterionResults stopped ecs
                       (handleJudgeEvaluating stopped s))))) = Some (map snd ecs))"
proof -
  from assms have st: "stopped = False" by simp
  have shown: "trafficLights
              (last (messages
                 (render
                    (handleCriterionResults False ecs
                       (handleJudgeEvaluating False s))))) = Some (map snd ecs)"
    if "lastIsAssistant s" and "ecs \<noteq> []"
  proof -
    from that have "lastIsAssistant (handleJudgeEvaluating False s)"
      by (simp add: lastIsAssistant_evaluating)
    from criterion_fold_shown [OF this \<open>ecs \<noteq> []\<close>] show ?thesis
      by (simp add: accumulated_fold accumulated_evaluating)
  qed
  have opened: "accumulatedCriteria (handleEvent False nowMs nowIso JUDGE_EVALUATING s) = []"
    by (simp add: handleEvent_def accumulated_render accumulated_evaluating)
  show ?thesis
    unfolding st
    using shown
    by (simp add: accumulated_step accumulated_fold accumulated_evaluating
        accumulated_delivered opened)
qed

theorem criterion_results_accumulate_in_order_witness:
  "\<not> False
   \<and> accumulatedCriteria
       (handleCriterionResults False [(True, sampleCriterion), (False, otherCriterion)]
          (handleJudgeEvaluating False answeredFirst)) = [sampleCriterion, otherCriterion]
   \<and> accumulatedCriteria
       (handleJudgeCriterionResult False False sampleCriterion answeredFirst) =
       [sampleCriterion]
   \<and> lastIsAssistant answeredFirst
   \<and> trafficLights
        (last (messages
           (render
              (handleCriterionResults False [(True, sampleCriterion), (False, otherCriterion)]
                 (handleJudgeEvaluating False answeredFirst))))) =
       Some [sampleCriterion, otherCriterion]"
proof -
  have n: "\<not> False" by simp
  have e: "accumulatedCriteria answeredFirst = []"
    by (simp add: accumulatedCriteria_def answeredFirst_value)
  have l: "lastIsAssistant answeredFirst"
    by (simp add: lastIsAssistant_def answeredFirst_value)
  have ne: "[(True, sampleCriterion), (False, otherCriterion)] \<noteq> []" by simp
  note t = criterion_results_accumulate_in_order
         [where stopped = False and eager = False and c = sampleCriterion
            and s = answeredFirst
            and ecs = "[(True, sampleCriterion), (False, otherCriterion)]", OF n]
  from t have 1: "accumulatedCriteria
       (handleCriterionResults False [(True, sampleCriterion), (False, otherCriterion)]
          (handleJudgeEvaluating False answeredFirst)) = [sampleCriterion, otherCriterion]"
    by simp
  from t e have 2: "accumulatedCriteria
       (handleJudgeCriterionResult False False sampleCriterion answeredFirst) =
       [sampleCriterion]"
    by simp
  from t l ne have 3: "trafficLights
        (last (messages
           (render
              (handleCriterionResults False [(True, sampleCriterion), (False, otherCriterion)]
                 (handleJudgeEvaluating False answeredFirst))))) =
       Some [sampleCriterion, otherCriterion]"
    by simp
  from n 1 2 l 3 show ?thesis by blast
qed

subsection \<open>The remembered user message\<close>

lemma outline_update_metadata:
  "outline (xs[i := (xs ! i)\<lparr>metadata := md\<rparr>]) = outline xs"
proof -
  have "outline (xs[i := (xs ! i)\<lparr>metadata := md\<rparr>]) =
          (outline xs)[i := (role (xs ! i), content (xs ! i))]"
    by (simp add: outline_def map_update)
  also have "\<dots> = outline (xs[i := xs ! i])"
    by (simp only: outline_def map_update)
  finally show ?thesis by simp
qed

lemma outline_streamingWrite:
  "outline (streamingWrite u ms) = outline ms"
  by (simp add: streamingWrite_def Let_def outline_update_metadata)

lemma outline_fold_streamingWrite:
  "outline (fold streamingWrite us ms) = outline ms"
  by (induction us arbitrary: ms) (simp_all add: outline_streamingWrite)

lemma outline_render:
  "outline (messages (render s)) = outline (messages s)"
  by (simp add: render_def outline_fold_streamingWrite)

lemma outline_handleJudgeCriterionResult:
  "outline (messages (handleJudgeCriterionResult seen eager c s)) = outline (messages s)"
  by (simp add: handleJudgeCriterionResult_def Let_def outline_streamingWrite)

lemma outline_handleJudgeResult:
  "outline (messages (handleJudgeResult seen ev s)) = outline (messages s)"
  by (simp add: handleJudgeResult_def Let_def outline_update_metadata)

lemma outline_handleUserInputEvaluation:
  "outline (messages (handleUserInputEvaluation c m s)) = outline (messages s)"
  by (simp add: handleUserInputEvaluation_def Let_def outline_def)

lemma outline_butlast_snoc:
  "xs \<noteq> [] \<Longrightarrow> outline (butlast xs @ [(last xs)\<lparr>metadata := md\<rparr>]) = outline xs"
  by (cases xs rule: rev_cases) (simp_all add: outline_def)

lemma outline_inputEvaluationEffect:
  "outline (messages (inputEvaluationEffect s)) = outline (messages s)"
  by (simp add: inputEvaluationEffect_def Let_def outline_butlast_snoc split: option.splits)

lemma lastUserMessage_inputEvaluationEffect:
  "lastUserMessage (inputEvaluationEffect s) = lastUserMessage s"
  by (simp add: inputEvaluationEffect_def Let_def split: option.splits)

lemma lastUserContent_cong:
  "outline xs = outline ys \<Longrightarrow> lastUserContent xs = lastUserContent ys"
  by (simp add: lastUserContent_def)

lemma lastUserContent_snoc_user:
  "role m = USER \<Longrightarrow> lastUserContent (xs @ [m]) = Some (content m)"
  by (simp add: lastUserContent_def outline_def)

lemma lastUserContent_snoc_other:
  "role m \<noteq> USER \<Longrightarrow> lastUserContent (xs @ [m]) = lastUserContent xs"
  by (simp add: lastUserContent_def outline_def)

lemma lastUserContent_butlast:
  "xs \<noteq> [] \<Longrightarrow> role (last xs) \<noteq> USER \<Longrightarrow> lastUserContent (butlast xs) = lastUserContent xs"
  by (cases xs rule: rev_cases) (simp_all add: lastUserContent_snoc_other)

lemma remembered_handled:
  assumes r: "remembered s"
  shows "remembered (runHandlers seen eager nowMs nowIso ev s)"
proof (cases ev)
  case (USER_INPUT_EVALUATION c m)
  have "lastUserContent (messages (runHandlers seen eager nowMs nowIso ev s)) =
          lastUserContent (messages s)"
    using USER_INPUT_EVALUATION
    by (simp add: lastUserContent_cong [OF outline_handleUserInputEvaluation])
  moreover have "lastUserMessage (runHandlers seen eager nowMs nowIso ev s) =
                   lastUserMessage s"
    using USER_INPUT_EVALUATION by (simp add: handleUserInputEvaluation_def)
  ultimately show ?thesis
    using r by (simp add: remembered_def)
next
  case (JUDGE_CRITERION_RESULT c)
  have "lastUserContent (messages (runHandlers seen eager nowMs nowIso ev s)) =
          lastUserContent (messages s)"
    using JUDGE_CRITERION_RESULT
    by (simp add: lastUserContent_cong [OF outline_handleJudgeCriterionResult])
  moreover have "lastUserMessage (runHandlers seen eager nowMs nowIso ev s) =
                   lastUserMessage s"
    using JUDGE_CRITERION_RESULT by (simp add: handleJudgeCriterionResult_def Let_def)
  ultimately show ?thesis
    using r by (simp add: remembered_def)
next
  case (JUDGE_RESULT e)
  have "lastUserContent (messages (runHandlers seen eager nowMs nowIso ev s)) =
          lastUserContent (messages s)"
    using JUDGE_RESULT
    by (simp add: lastUserContent_cong [OF outline_handleJudgeResult])
  moreover have "lastUserMessage (runHandlers seen eager nowMs nowIso ev s) =
                   lastUserMessage s"
    using JUDGE_RESULT by (simp add: handleJudgeResult_def Let_def)
  ultimately show ?thesis
    using r by (simp add: remembered_def)
next
  case (CHATBOT_RESPONSE d)
  then show ?thesis
    using r
    by (simp add: remembered_def handleChatbotResponse_def Let_def lastUserContent_snoc_other)
qed (use r in \<open>simp_all add: remembered_def handleGenerating_def handleInputCritique_def
       handleChatbotChunk_def handleJudgeEvaluating_def handleFinalResponse_def
       handleError_def\<close>)

lemma remembered_render:
  "remembered s \<Longrightarrow> remembered (render s)"
proof -
  assume r: "remembered s"
  have "lastUserContent (messages (render s)) = lastUserContent (messages s)"
    by (rule lastUserContent_cong [OF outline_render])
  moreover have "lastUserMessage (render s) = lastUserMessage s"
    by (simp add: render_def)
  ultimately show ?thesis
    using r by (simp add: remembered_def)
qed

lemma remembered_effect:
  "remembered s \<Longrightarrow> remembered (inputEvaluationEffect s)"
proof -
  assume r: "remembered s"
  have "lastUserContent (messages (inputEvaluationEffect s)) = lastUserContent (messages s)"
    by (rule lastUserContent_cong [OF outline_inputEvaluationEffect])
  then show ?thesis
    using r by (simp add: remembered_def lastUserMessage_inputEvaluationEffect)
qed

lemma remembered_effectsAfter:
  "remembered s \<Longrightarrow> remembered (effectsAfter ev s)"
  by (cases ev) (simp_all add: remembered_effect)

lemma remembered_event:
  "remembered s \<Longrightarrow> remembered (handleEvent seen nowMs nowIso ev s)"
  unfolding handleEvent_def
  by (intro remembered_effectsAfter remembered_render remembered_handled)

lemma remembered_send:
  "remembered s \<Longrightarrow> remembered (fst (handleSend nowMs nowIso s))"
  by (simp add: remembered_def handleSend_def Let_def lastUserContent_snoc_user)

lemma remembered_retry:
  "remembered s \<Longrightarrow> remembered (fst (handleRetry eager s))"
  by (simp add: remembered_def handleRetry_def Let_def lastUserContent_butlast)

lemma reachable_remembered:
  "reachable s \<Longrightarrow> remembered s"
proof (induction rule: reachable.induct)
  case mounted
  show ?case by (simp add: remembered_def initialChatUI_def)
next
  case (typed s v)
  then show ?case by (simp add: remembered_def handleInputChange_def)
next
  case (sent s nowMs nowIso)
  then show ?case by (simp add: remembered_send)
next
  case (stopped s)
  then show ?case by (simp add: remembered_def handleStop_def)
next
  case (retried s eager)
  then show ?case by (simp add: remembered_retry)
next
  case (delivered s seen nowMs nowIso ev)
  then show ?case by (simp add: remembered_event)
next
  case (handled s seen eager nowMs nowIso ev)
  then show ?case by (simp add: remembered_handled)
next
  case (rendered s)
  then show ?case by (simp add: remembered_render)
next
  case (effected s)
  then show ?case by (simp add: remembered_effect)
qed

lemma reachable_answeredFirst:
  "reachable answeredFirst"
proof -
  have "reachable (handleInputChange ''first'' initialChatUI)"
    by (intro reachable.typed reachable.mounted)
  then have "reachable sentFirst"
    unfolding sentFirst_def by (rule reachable.sent)
  then have "reachable (runHandlers False False ''1001'' ''t1''
       (CHATBOT_RESPONSE \<lparr>response = ''answer'', response_iteration = Some 1,
                          response_conversation_id = Some ''conv''\<rparr>) sentFirst)"
    by (rule reachable.handled)
  then show ?thesis
    by (simp add: answeredFirst_def)
qed

subsection \<open>Retry\<close>

text \<open>
  Claim C3. When the retry control is invoked (it is rendered only while nothing is
  loading or being judged and a user message has been sent), for every message history
  the new history is the old one without its final message when that is an assistant
  message, and the old one otherwise; and exactly one \<open>user_message\<close> command is handed
  to the channel client, whose message is the cell \<open>lastUserMessage\<close> and whose
  \<open>skip_user_evaluation\<close> flag is true. In every state the component can reach, that
  message is the content of the last user message of the history.
\<close>

theorem retry_drops_assistant_and_resubmits:
  assumes "retryRendered s"
  shows "messages (fst (handleRetry eager s)) =
           (if messages s \<noteq> [] \<and> role (last (messages s)) = ASSISTANT
            then butlast (messages s) else messages s)
       \<and> (\<exists>p. snd (handleRetry eager s) = [(''user_message'', p)]
              \<and> message p = lastUserMessage s
              \<and> skip_user_evaluation p = Some True
              \<and> (reachable s \<longrightarrow> lastUserContent (messages s) = Some (message p)))"
proof -
  have "lastUserContent (messages s) = Some (lastUserMessage s)" if "reachable s"
    using reachable_remembered [OF that] assms
    by (simp add: remembered_def retryRendered_def)
  then show ?thesis
    using assms by (simp add: handleRetry_def retryRendered_def Let_def)
qed

theorem retry_drops_assistant_and_resubmits_witness:
  "retryRendered answeredFirst
   \<and> messages (fst (handleRetry True answeredFirst)) = messages sentFirst
   \<and> reachable answeredFirst
   \<and> lastUserContent (messages answeredFirst) = Some ''first''
   \<and> (\<exists>p. snd (handleRetry True answeredFirst) = [(''user_message'', p)]
          \<and> message p = ''first'' \<and> skip_user_evaluation p = Some True)"
proof -
  have r: "retryRendered answeredFirst"
    by (simp add: retryRendered_def answeredFirst_value)
  note t = retry_drops_assistant_and_resubmits [where s = answeredFirst and eager = True, OF r]
  from t have m: "messages (fst (handleRetry True answeredFirst)) = messages sentFirst"
    by (simp add: answeredFirst_value sentFirst_value)
  from t reachable_answeredFirst
  obtain p where p: "snd (handleRetry True answeredFirst) = [(''user_message'', p)]"
      "message p = lastUserMessage answeredFirst" "skip_user_evaluation p = Some True"
      "lastUserContent (messages answeredFirst) = Some (message p)"
    by blast
  have l: "lastUserMessage answeredFirst = ''first''"
    by (simp add: answeredFirst_value)
  from p l have c: "lastUserContent (messages answeredFirst) = Some ''first''"
    by simp
  from p l have e: "\<exists>p. snd (handleRetry True answeredFirst) = [(''user_message'', p)]
          \<and> message p = ''first'' \<and> skip_user_evaluation p = Some True"
    by auto
  from r m reachable_answeredFirst c e show ?thesis by blast
qed

subsection \<open>Events after stop\<close>

text \<open>
  Where the handler does test \<open>isStopped\<close> and reads it as true, the event changes
  nothing.
\<close>

lemma guarded_handlers_ignore_when_stopped:
  "handleChatbotChunk True chunk s = s
   \<and> handleJudgeEvaluating True s = s
   \<and> handleJudgeCriterionResult True eager c s = s
   \<and> handleJudgeResult True ev s = s"
  by (simp add: handleChatbotChunk_def handleJudgeEvaluating_def
      handleJudgeCriterionResult_def handleJudgeResult_def)

text \<open>
  Claim C2, at a failing run. The user sends "first" and presses stop; the cell
  \<open>isStopped\<close> is true. A \<open>chatbot_response\<close> event of that pipeline delivered afterwards
  is not discarded: whatever value of \<open>isStopped\<close> the handlers read, the history gains
  the assistant message and the iteration shown changes; a \<open>chatbot_generating\<close> event
  turns the loading indicator on again. With the \<open>isStopped\<close> of the first render, which
  is what the registered handlers read, a \<open>judge_result\<close> event still replaces the
  evaluation shown.
\<close>

theorem response_after_stop_is_appended:
  "isStopped stoppedFirst
   \<and> messages stoppedFirst =
       [\<lparr>msg_id = ''msg_1000'', role = USER, content = ''first'', timestamp = ''t0'',
         metadata = \<lparr>iteration = None, streaming_evaluation = None, evaluation = None,
                     md_inputEvaluation = None\<rparr>\<rparr>]
   \<and> messages
        (handleEvent True ''1003'' ''t3''
           (CHATBOT_RESPONSE \<lparr>response = ''late'', response_iteration = Some 1,
                              response_conversation_id = Some ''conv''\<rparr>) stoppedFirst) =
       messages stoppedFirst @
       [\<lparr>msg_id = ''msg_1003'', role = ASSISTANT, content = ''late'', timestamp = ''t3'',
         metadata = \<lparr>iteration = Some 1, streaming_evaluation = None, evaluation = None,
                     md_inputEvaluation = None\<rparr>\<rparr>]
   \<and> messages
        (handleEvent False ''1003'' ''t3''
           (CHATBOT_RESPONSE \<lparr>response = ''late'', response_iteration = Some 1,
                              response_conversation_id = Some ''conv''\<rparr>) stoppedFirst) =
       messages stoppedFirst @
       [\<lparr>msg_id = ''msg_1003'', role = ASSISTANT, content = ''late'', timestamp = ''t3'',
         metadata = \<lparr>iteration = Some 1, streaming_evaluation = None, evaluation = None,
                     md_inputEvaluation = None\<rparr>\<rparr>]
   \<and> app_currentIteration stoppedFirst = None
   \<and> app_currentIteration
        (handleEvent True ''1003'' ''t3''
           (CHATBOT_RESPONSE \<lparr>response = ''late'', response_iteration = Some 1,
                              response_conversation_id = Some ''conv''\<rparr>) stoppedFirst) = Some 1
   \<and> isLoading stoppedFirst = False
   \<and> isLoading (handleEvent True ''1003'' ''t3'' CHATBOT_GENERATING stoppedFirst) = True
   \<and> currentEvaluation stoppedFirst = None
   \<and> currentEvaluation
        (handleEvent False ''1003'' ''t3'' (JUDGE_RESULT sampleEvaluation) stoppedFirst) =
       Some sampleEvaluation"
  by (simp add: stoppedFirst_value handleEvent_def render_def handleChatbotResponse_def
      handleGenerating_def Let_def truthy_number_def truthy_string_def handleJudgeResult_def)

subsection \<open>Input critique results\<close>

text \<open>The handler alone changes the messages with the id of the event, in the one
  metadata key, and no other message.\<close>

lemma handleUserInputEvaluation_frame:
  "length (messages (handleUserInputEvaluation c m s)) = length (messages s)
   \<and> (\<forall>i < length (messages s).
        Some (msg_id (messages s ! i)) \<noteq> m \<longrightarrow>
        messages (handleUserInputEvaluation c m s) ! i = messages s ! i)
   \<and> (\<forall>i < length (messages s).
        Some (msg_id (messages s ! i)) = m \<longrightarrow>
        messages (handleUserInputEvaluation c m s) ! i =
          (messages s ! i)
            \<lparr>metadata := (metadata (messages s ! i))
               \<lparr>md_inputEvaluation :=
                  Some ((case md_inputEvaluation (metadata (messages s ! i)) of
                           Some e \<Rightarrow> e | None \<Rightarrow> placeholderEvaluation [])
                        \<lparr>criteria_scores :=
                           criteria_scores
                             (case md_inputEvaluation (metadata (messages s ! i)) of
                                Some e \<Rightarrow> e | None \<Rightarrow> placeholderEvaluation []) @ [c]\<rparr>)\<rparr>\<rparr>)"
  by (simp add: handleUserInputEvaluation_def Let_def)

text \<open>After \<open>handleSend\<close> the cell \<open>inputEvaluation\<close> holds a new object too, with no
  criteria: the effect that follows changes nothing.\<close>

lemma inputEvaluationEffect_after_send:
  "inputEvaluation s = Some (placeholderEvaluation []) \<Longrightarrow> inputEvaluationEffect s = s"
  by (simp add: inputEvaluationEffect_def placeholderEvaluation_def)

text \<open>
  Claim C6, at a failing run. The user sends "first" (message id \<open>msg_1000\<close>), presses
  stop, and sends "second" (\<open>msg_1002\<close>). A \<open>user_input_evaluation\<close> event for
  \<open>msg_1000\<close> arrives. The criterion is attached to \<open>msg_1000\<close>, and the effect that follows
  writes the accumulated input evaluation into the last message, \<open>msg_1002\<close>, whose id
  differs from the event's: its metadata changes.
\<close>

theorem input_evaluation_reaches_other_message:
  "map msg_id (messages sentSecond) = [''msg_1000'', ''msg_1002'']
   \<and> map (md_inputEvaluation \<circ> metadata) (messages sentSecond) = [None, None]
   \<and> map msg_id
        (messages (handleEvent False ''1003'' ''t3''
                     (USER_INPUT_EVALUATION sampleCriterion (Some ''msg_1000'')) sentSecond)) =
       [''msg_1000'', ''msg_1002'']
   \<and> map (md_inputEvaluation \<circ> metadata)
        (messages (handleEvent False ''1003'' ''t3''
                     (USER_INPUT_EVALUATION sampleCriterion (Some ''msg_1000'')) sentSecond)) =
       [Some (placeholderEvaluation [sampleCriterion]),
        Some (placeholderEvaluation [sampleCriterion])]
   \<and> map (md_inputEvaluation \<circ> metadata)
        (messages (handleUserInputEvaluation sampleCriterion (Some ''msg_1000'') sentSecond)) =
       [Some (placeholderEvaluation [sampleCriterion]), None]"
  by (simp add: sentSecond_value handleEvent_def render_def handleUserInputEvaluation_def
      inputEvaluationEffect_def Let_def placeholderEvaluation_def)

section \<open>Properties of the evaluation engine\<close>

lemma scoreCriteria_all_returned:
  "\<forall>c \<in> set cs. cap input c = Some (sc c, fb c) \<Longrightarrow>
   scoreCriteria cap input cs =
     (Some (map (\<lambda>c. criterionResult c (sc c) (fb c)) cs), cs,
      map (\<lambda>c. criterionResult c (sc c) (fb c)) cs)"
  by (induction cs) (simp_all add: Let_def)

lemma aggregateScore_results:
  "aggregateScore (map (\<lambda>c. criterionResult c (sc c) (fb c)) cs) =
     sum_list (map (\<lambda>c. sc c * criterion_weight c) cs) / sum_list (map criterion_weight cs)"
  by (simp add: aggregateScore_def criterionResult_def comp_def)

lemma evaluate_zero_weight:
  "sum_list (map criterion_weight (filter enabled criteria)) = 0 \<Longrightarrow>
   evaluate cap summary cfg input criteria =
     \<lparr>outcome = Inl EvaluationError, capability_calls = [], emitted = []\<rparr>"
  by (simp add: evaluate_def)

lemma evaluate_all_returned:
  assumes nz: "sum_list (map criterion_weight (filter enabled criteria)) \<noteq> 0"
    and ok: "\<forall>c \<in> set (filter enabled criteria). cap input c = Some (sc c, fb c)"
  shows "\<exists>ev. outcome (evaluate cap summary cfg input criteria) = Inr ev
          \<and> overall_score ev =
              sum_list (map (\<lambda>c. sc c * criterion_weight c) (filter enabled criteria))
              / sum_list (map criterion_weight (filter enabled criteria))"
proof -
  have run: "scoreCriteria cap input (filter enabled criteria) =
     (Some (map (\<lambda>c. criterionResult c (sc c) (fb c)) (filter enabled criteria)),
      filter enabled criteria,
      map (\<lambda>c. criterionResult c (sc c) (fb c)) (filter enabled criteria))"
    using ok by (rule scoreCriteria_all_returned)
  show ?thesis
    using nz by (simp add: evaluate_def Let_def run aggregateScore_results)
qed


lemma example_active:
  "filter enabled [accuracy, relevance] = [accuracy, relevance]"
  by (simp add: accuracy_def relevance_def)

lemma example_weights:
  "sum_list (map criterion_weight [accuracy, relevance]) = 1"
  by (simp add: accuracy_def relevance_def)

lemma example_weighted_scores:
  "sum_list (map (\<lambda>c. exampleScore c * criterion_weight c) [accuracy, relevance]) = 70"
  by (simp add: accuracy_def relevance_def exampleScore_def)

text \<open>
  Claim C5. For the enabled criteria of a criteria list, with weights \<open>w_i\<close>, whose
  capability calls return the scores \<open>s_i\<close>: when the weights do not sum to 0, \<open>evaluate\<close>
  returns an Evaluation whose overall score is \<open>sum (s_i * w_i) / sum w_i\<close>; when they
  sum to 0, it fails with \<open>EvaluationError\<close> and has made no capability call.
\<close>

theorem evaluate_overall_score:
  "(sum_list (map criterion_weight (filter enabled criteria)) = 0 \<longrightarrow>
      outcome (evaluate cap summary cfg input criteria) = Inl EvaluationError
      \<and> capability_calls (evaluate cap summary cfg input criteria) = [])
   \<and> (sum_list (map criterion_weight (filter enabled criteria)) \<noteq> 0
       \<and> (\<forall>c \<in> set (filter enabled criteria). cap input c = Some (sc c, fb c)) \<longrightarrow>
      (\<exists>ev. outcome (evaluate cap summary cfg input criteria) = Inr ev
        \<and> overall_score ev =
            sum_list (map (\<lambda>c. sc c * criterion_weight c) (filter enabled criteria))
            / sum_list (map criterion_weight (filter enabled criteria))))"
  using evaluate_all_returned [of criteria cap input sc fb summary cfg]
  by (simp add: evaluate_zero_weight)

theorem evaluate_overall_score_witness:
  "sum_list (map criterion_weight (filter enabled [accuracy\<lparr>criterion_weight := 0\<rparr>])) = 0
   \<and> outcome (evaluate exampleCapability (\<lambda>rs. []) exampleSettings ''hello''
                [accuracy\<lparr>criterion_weight := 0\<rparr>]) = Inl EvaluationError
   \<and> capability_calls (evaluate exampleCapability (\<lambda>rs. []) exampleSettings ''hello''
                [accuracy\<lparr>criterion_weight := 0\<rparr>]) = []
   \<and> sum_list (map criterion_weight (filter enabled [accuracy, relevance])) \<noteq> 0
   \<and> exampleCapability ''hello'' accuracy = Some (80, ''noted'')
   \<and> exampleCapability ''hello'' relevance = Some (60, ''noted'')
   \<and> (\<exists>ev. outcome (evaluate exampleCapability (\<lambda>rs. []) exampleSettings ''hello''
                      [accuracy, relevance]) = Inr ev
          \<and> overall_score ev = 70)"
proof -
  have z: "sum_list (map criterion_weight (filter enabled [accuracy\<lparr>criterion_weight := 0\<rparr>])) = 0"
    by (simp add: accuracy_def)
  have nz: "sum_list (map criterion_weight (filter enabled [accuracy, relevance])) \<noteq> 0"
    unfolding example_active example_weights by simp
  have ok: "\<forall>c \<in> set (filter enabled [accuracy, relevance]).
              exampleCapability ''hello'' c = Some (exampleScore c, ''noted'')"
    by (simp add: exampleCapability_def)
  from evaluate_overall_score
         [where criteria = "[accuracy\<lparr>criterion_weight := 0\<rparr>]" and cap = exampleCapability
            and summary = "\<lambda>rs. []" and cfg = exampleSettings and input = "''hello''"] z
  have 1: "outcome (evaluate exampleCapability (\<lambda>rs. []) exampleSettings ''hello''
                [accuracy\<lparr>criterion_weight := 0\<rparr>]) = Inl EvaluationError
     \<and> capability_calls (evaluate exampleCapability (\<lambda>rs. []) exampleSettings ''hello''
                [accuracy\<lparr>criterion_weight := 0\<rparr>]) = []"
    by blast
  from evaluate_overall_score
         [where criteria = "[accuracy, relevance]" and cap = exampleCapability
            and summary = "\<lambda>rs. []" and cfg = exampleSettings and input = "''hello''"
            and sc = exampleScore and fb = "\<lambda>c. ''noted''"] nz ok
  have "\<exists>ev. outcome (evaluate exampleCapability (\<lambda>rs. []) exampleSettings ''hello''
                      [accuracy, relevance]) = Inr ev
          \<and> overall_score ev =
            sum_list (map (\<lambda>c. exampleScore c * criterion_weight c) (filter enabled [accuracy, relevance]))
            / sum_list (map criterion_weight (filter enabled [accuracy, relevance]))"
    by blast
  then have 2: "\<exists>ev. outcome (evaluate exampleCapability (\<lambda>rs. []) exampleSettings ''hello''
                      [accuracy, relevance]) = Inr ev
          \<and> overall_score ev = 70"
    unfolding example_active example_weights example_weighted_scores by simp
  have c: "exampleCapability ''hello'' accuracy = Some (80, ''noted'')
           \<and> exampleCapability ''hello'' relevance = Some (60, ''noted'')"
    by (simp add: exampleCapability_def exampleScore_def accuracy_def relevance_def)
  from z 1 nz c 2 show ?thesis by blast
qed

section \<open>Properties of the judge panel\<close>






end
